theory Spec2Isabelle
  imports Main
begin

section \<open>Python strings\<close>

text \<open>
  A Python \<open>str\<close> is a sequence of Unicode code points; slicing and \<open>len\<close> count code
  points. A string is therefore a list of code points (natural numbers), and \<open>py\<close> turns
  an ASCII literal of the source into that form.
\<close>

type_synonym pystr = "nat list"

definition py :: "string \<Rightarrow> pystr" where
  "py s = map of_char s"

definition LF :: nat where
  "LF = 10"

definition CR :: nat where
  "CR = 13"

text \<open>
  The line boundaries of \<open>str.splitlines()\<close>: \<open>\n\<close>, \<open>\v\<close>, \<open>\f\<close>, \<open>\r\<close>, \<open>\x1c\<close>,
  \<open>\x1d\<close>, \<open>\x1e\<close>, \<open>\x85\<close>, U+2028, U+2029; \<open>\r\n\<close> counts as one boundary.
\<close>

definition is_linebreak :: "nat \<Rightarrow> bool" where
  "is_linebreak c \<longleftrightarrow> c \<in> set [10, 11, 12, 13, 28, 29, 30, 133, 8232, 8233]"

text \<open>
  The characters \<open>str.strip()\<close> removes when called without argument (those for which
  \<open>str.isspace()\<close> holds): U+0009 to U+000D, U+001C to U+0020, U+0085, U+00A0, U+1680,
  U+2000 to U+200A, U+2028, U+2029, U+202F, U+205F, U+3000.
\<close>

definition is_space :: "nat \<Rightarrow> bool" where
  "is_space c \<longleftrightarrow>
     (9 \<le> c \<and> c \<le> 13) \<or> (28 \<le> c \<and> c \<le> 32) \<or> c = 133 \<or> c = 160 \<or> c = 5760 \<or>
     (8192 \<le> c \<and> c \<le> 8202) \<or> c = 8232 \<or> c = 8233 \<or> c = 8239 \<or> c = 8287 \<or> c = 12288"

definition strip :: "pystr \<Rightarrow> pystr" where
  "strip s = rev (dropWhile is_space (rev (dropWhile is_space s)))"

text \<open>
  \<open>s.splitlines()\<close>, scanning left to right: \<open>cur\<close> is the line read so far. A line
  boundary closes the current line (an empty one too); text after the last boundary is a
  last line, and nothing is added when the string ends with a boundary.
\<close>

fun splitlines_from :: "pystr \<Rightarrow> pystr \<Rightarrow> pystr list" where
  "splitlines_from cur [] = (if cur = [] then [] else [cur])"
| "splitlines_from cur [c] = (if is_linebreak c then [cur] else [cur @ [c]])"
| "splitlines_from cur (c # d # cs) =
     (if c = CR \<and> d = LF then cur # splitlines_from [] cs
      else if is_linebreak c then cur # splitlines_from [] (d # cs)
      else splitlines_from (cur @ [c]) (d # cs))"

definition splitlines :: "pystr \<Rightarrow> pystr list" where
  "splitlines s = splitlines_from [] s"

definition startswith :: "pystr \<Rightarrow> pystr \<Rightarrow> bool" where
  "startswith s p \<longleftrightarrow> take (length p) s = p"

text \<open>Decimal formatting of an integer, as an f-string does it.\<close>

fun digits :: "nat \<Rightarrow> pystr" where
  "digits n = (if n < 10 then [48 + n] else digits (n div 10) @ [48 + n mod 10])"

declare digits.simps [simp del]

definition str_int :: "int \<Rightarrow> pystr" where
  "str_int i = (if i < 0 then 45 # digits (nat (- i)) else digits (nat i))"


section \<open>backend/main.py\<close>

subsection \<open>Request and response models\<close>

text \<open>
  A JSON member of the request body is absent, \<open>null\<close> or given. The pydantic models
  declare every option as \<open>Optional[T] = default\<close>: an absent member takes the default, a
  \<open>null\<close> becomes \<open>None\<close>, a value is kept as it is. The body is taken as already typed
  (strings, booleans, integers), the required members \<open>code\<close>, \<open>language\<close> and
  \<open>user_level\<close> as present.
\<close>

datatype 'a field = Absent | Null | Given 'a

record options_json =
  j_safe_run :: "bool field"
  j_include_youtube :: "bool field"
  j_max_tokens :: "int field"

record request_json =
  j_code :: pystr
  j_language :: pystr
  j_user_level :: pystr
  j_options :: "options_json field"

record Options =
  safe_run :: "bool option"
  include_youtube :: "bool option"
  max_tokens :: "int option"

record ExplainRequest =
  code :: pystr
  language :: pystr
  user_level :: pystr
  options :: "Options option"

text \<open>\<open>ExplainLine\<close>; its member \<open>code\<close> is named \<open>line_code\<close> here.\<close>

record ExplainLine =
  line_number :: int
  line_code :: pystr
  explanation :: pystr

text \<open>One entry of \<open>related_videos\<close>: the dictionary built by \<open>youtube_search\<close>.\<close>

record video =
  title :: pystr
  video_id :: pystr
  url :: pystr

text \<open>
  The dictionary returned by the handler. All three keys are always set, so the
  \<open>Optional\<close> of \<open>ExplainResponse\<close> is never \<open>None\<close>.
\<close>

record ExplainResponse =
  summary :: pystr
  lines :: "ExplainLine list"
  related_videos :: "video list"

record HTTPException =
  status_code :: int
  detail :: pystr

fun field_or :: "'a \<Rightarrow> 'a field \<Rightarrow> 'a option" where
  "field_or d Absent = Some d"
| "field_or d Null = None"
| "field_or d (Given v) = Some v"

definition Options_model :: "options_json \<Rightarrow> Options" where
  "Options_model j =
     \<lparr>safe_run = field_or False (j_safe_run j),
      include_youtube = field_or True (j_include_youtube j),
      max_tokens = field_or 1024 (j_max_tokens j)\<rparr>"

definition Options_default :: Options where
  "Options_default = \<lparr>safe_run = Some False, include_youtube = Some True, max_tokens = Some 1024\<rparr>"

definition ExplainRequest_model :: "request_json \<Rightarrow> ExplainRequest" where
  "ExplainRequest_model j =
     \<lparr>code = j_code j, language = j_language j, user_level = j_user_level j,
      options = (case j_options j of
                   Absent \<Rightarrow> Some Options_default
                 | Null \<Rightarrow> None
                 | Given o_json \<Rightarrow> Some (Options_model o_json))\<rparr>"

subsection \<open>Exceptions, the environment and the trace of calls\<close>

text \<open>
  The exceptions that can be raised inside the handler, all of class \<open>Exception\<close>;
  \<open>ApiError\<close> stands for whatever the YouTube client library raises (building the client,
  building the request, executing it).
\<close>

datatype exn = AttributeError | IndexError | KeyError | ApiError pystr

text \<open>
  An item of the search response. \<open>snippet_title\<close> is \<open>item["snippet"]["title"]\<close> and
  \<open>id_videoId\<close> is \<open>item["id"]["videoId"]\<close>; \<open>None\<close> means that a key on the path is
  missing, so that the subscript raises \<open>KeyError\<close>. The response itself may lack the key
  \<open>items\<close>.
\<close>

record yt_item =
  snippet_title :: "pystr option"
  id_videoId :: "pystr option"

type_synonym yt_response = "yt_item list option"

text \<open>
  The module-level state: \<open>YOUTUBE_API_KEY\<close> (\<open>os.getenv\<close> gives \<open>None\<close> or a string) and
  \<open>youtube_build\<close> (\<open>None\<close> when the import failed). The client is a function of the
  developer key, the query and \<open>maxResults\<close>.
\<close>

record environment =
  YOUTUBE_API_KEY :: "pystr option"
  youtube_build :: "(pystr \<Rightarrow> pystr \<Rightarrow> int \<Rightarrow> exn + yt_response) option"

text \<open>
  What a run of the handler does besides returning: each entry into \<open>youtube_search\<close>
  (query, \<open>max_results\<close>), each request sent through the YouTube client (key, query,
  \<open>maxResults\<close>) and each \<open>logger.exception\<close>. The stub \<open>call_gemini_model\<close> is
  called from nowhere, so it has no entry.
\<close>

datatype call =
  Youtube_search pystr int
| Youtube_api pystr pystr int
| Logger_exception pystr exn

subsection \<open>Helper functions\<close>

definition call_gemini_model :: "pystr \<Rightarrow> int \<Rightarrow> pystr" where
  "call_gemini_model prompt max_tok = py ''MOCK_RESPONSE: Explanation goes here.''"

definition watch_url :: "pystr \<Rightarrow> pystr" where
  "watch_url ident = py ''https://www.youtube.com/watch?v='' @ ident"

text \<open>The loop over \<open>resp.get("items", [])\<close>; a missing key ends it with \<open>KeyError\<close>.\<close>

fun youtube_videos :: "yt_item list \<Rightarrow> video list \<Rightarrow> exn + video list" where
  "youtube_videos [] videos = Inr videos"
| "youtube_videos (item # items) videos =
     (case snippet_title item of
        None \<Rightarrow> Inl KeyError
      | Some t \<Rightarrow>
          (case id_videoId item of
             None \<Rightarrow> Inl KeyError
           | Some vid \<Rightarrow>
               youtube_videos items
                 (videos @ [\<lparr>title = t, video_id = vid, url = watch_url vid\<rparr>])))"

text \<open>The body of the \<open>try\<close> block of \<open>youtube_search\<close>.\<close>

definition youtube_try ::
  "(pystr \<Rightarrow> pystr \<Rightarrow> int \<Rightarrow> exn + yt_response) \<Rightarrow> pystr \<Rightarrow> pystr \<Rightarrow> int \<Rightarrow> exn + video list"
where
  "youtube_try client key query max_results =
     (case client key query max_results of
        Inl e \<Rightarrow> Inl e
      | Inr resp \<Rightarrow> youtube_videos (case resp of None \<Rightarrow> [] | Some items \<Rightarrow> items) [])"

definition youtube_search :: "environment \<Rightarrow> pystr \<Rightarrow> int \<Rightarrow> video list \<times> call list" where
  "youtube_search env query max_results =
     (case YOUTUBE_API_KEY env of
        None \<Rightarrow> ([], [Youtube_search query max_results])
      | Some key \<Rightarrow>
          if key = [] then ([], [Youtube_search query max_results])
          else
            (case youtube_build env of
               None \<Rightarrow> ([], [Youtube_search query max_results])
             | Some client \<Rightarrow>
                 (case youtube_try client key query max_results of
                    Inl e \<Rightarrow>
                      ([], [Youtube_search query max_results, Youtube_api key query max_results,
                            Logger_exception (py ''YouTube API error: %s'') e])
                  | Inr videos \<Rightarrow>
                      (videos,
                       [Youtube_search query max_results, Youtube_api key query max_results]))))"

subsection \<open>The endpoint /explain\<close>

text \<open>
  The loop of \<open>explain\<close> over \<open>enumerate(req.code.splitlines(), start=1)\<close>;
  \<open>explain_entry\<close> is the dictionary it appends for a line that is not blank.
\<close>

definition explain_entry :: "int \<Rightarrow> pystr \<Rightarrow> ExplainLine" where
  "explain_entry i line =
     \<lparr>line_number = i, line_code = line,
      explanation = py ''Mock explanation for line '' @ str_int i\<rparr>"

fun explain_lines :: "int \<Rightarrow> pystr list \<Rightarrow> ExplainLine list \<Rightarrow> ExplainLine list" where
  "explain_lines i [] acc = acc"
| "explain_lines i (line # rest) acc =
     explain_lines (i + 1) rest
       (if strip line \<noteq> [] then acc @ [explain_entry i line] else acc)"

text \<open>
  The body of the \<open>try\<close> block of \<open>explain\<close>. \<open>req.options\<close> may be \<open>None\<close> (attribute
  access then fails), and the first line is read only when \<open>include_youtube\<close> is true.
\<close>

definition explain_try :: "environment \<Rightarrow> ExplainRequest \<Rightarrow> (exn + ExplainResponse) \<times> call list" where
  "explain_try env req =
     (let ls = explain_lines 1 (splitlines (code req)) [];
          s = py ''Explained '' @ str_int (int (length ls)) @ py '' lines.''
      in case options req of
           None \<Rightarrow> (Inl AttributeError, [])
         | Some opts \<Rightarrow>
             if include_youtube opts = Some True then
               (case splitlines (code req) of
                  [] \<Rightarrow> (Inl IndexError, [])
                | first # _ \<Rightarrow>
                    (case youtube_search env (take 50 first) 3 of
                       (videos, calls) \<Rightarrow>
                         (Inr \<lparr>summary = s, lines = ls, related_videos = videos\<rparr>, calls)))
             else (Inr \<lparr>summary = s, lines = ls, related_videos = []\<rparr>, []))"

definition internal_server_error :: HTTPException where
  "internal_server_error = \<lparr>status_code = 500, detail = py ''Internal server error''\<rparr>"

definition explain :: "environment \<Rightarrow> ExplainRequest \<Rightarrow> (HTTPException + ExplainResponse) \<times> call list" where
  "explain env req =
     (case explain_try env req of
        (Inl e, calls) \<Rightarrow>
          (Inl internal_server_error, calls @ [Logger_exception (py ''Error in /explain: %s'') e])
      | (Inr resp, calls) \<Rightarrow> (Inr resp, calls))"

text \<open>A POST to \<open>/explain\<close>: the body is read into the request model, then handled.\<close>

definition post_explain :: "environment \<Rightarrow> request_json \<Rightarrow> (HTTPException + ExplainResponse) \<times> call list" where
  "post_explain env body = explain env (ExplainRequest_model body)"


section \<open>app.py\<close>

text \<open>
  The client. Only what decides a request is modelled: the guard in front of the POST,
  the payload, and \<open>display_youtube_list\<close>. The widgets called are recorded in order;
  the rendering of a response between two POSTs is left out.
\<close>

datatype widget_call =
  Warning pystr
| Post pystr request_json
| Markdown pystr
| Video pystr

text \<open>The two select boxes offer fixed options.\<close>

datatype lang_option = python | javascript | java | cpp | csharp | go

datatype level_option = Beginner | Intermediate | Advanced

text \<open>The options of the language select box, in the order of the source.\<close>

definition supported_languages :: "pystr list" where
  "supported_languages =
     [py ''python'', py ''javascript'', py ''java'', py ''cpp'', py ''csharp'', py ''go'']"

fun lang_value :: "lang_option \<Rightarrow> pystr" where
  "lang_value python = py ''python''"
| "lang_value javascript = py ''javascript''"
| "lang_value java = py ''java''"
| "lang_value cpp = py ''cpp''"
| "lang_value csharp = py ''csharp''"
| "lang_value go = py ''go''"

fun level_value :: "level_option \<Rightarrow> pystr" where
  "level_value Beginner = py ''Beginner''"
| "level_value Intermediate = py ''Intermediate''"
| "level_value Advanced = py ''Advanced''"

text \<open>\<open>str.lower()\<close> on the ASCII letters, which is all the level names contain.\<close>

definition lower :: "pystr \<Rightarrow> pystr" where
  "lower s = map (\<lambda>c. if 65 \<le> c \<and> c \<le> 90 then c + 32 else c) s"

text \<open>The values of the widgets when the script runs.\<close>

record form =
  explain_btn :: bool
  fix_btn :: bool
  practice_btn :: bool
  code_area :: pystr
  lang :: lang_option
  expertise :: level_option
  w_safe_run :: bool
  w_include_youtube :: bool
  w_max_tokens :: int

definition payload :: "form \<Rightarrow> request_json" where
  "payload f =
     \<lparr>j_code = code_area f, j_language = lang_value (lang f),
      j_user_level = lower (level_value (expertise f)),
      j_options = Given \<lparr>j_safe_run = Given (w_safe_run f),
                         j_include_youtube = Given (w_include_youtube f),
                         j_max_tokens = Given (w_max_tokens f)\<rparr>\<rparr>"

text \<open>The section ACTIONS.\<close>

definition actions :: "form \<Rightarrow> widget_call list" where
  "actions f =
     (if explain_btn f \<or> fix_btn f \<or> practice_btn f then
        (if code_area f = [] \<or> strip (code_area f) = []
         then [Warning (py ''Please paste or upload some code first.'')]
         else (if explain_btn f then [Post (py ''/explain'') (payload f)] else []) @
              (if fix_btn f then [Post (py ''/fix'') (payload f)] else []) @
              (if practice_btn f then [Post (py ''/practice'') (payload f)] else []))
      else [])"

text \<open>
  A video dictionary as the client reads it, through \<open>v.get\<close> on the keys \<open>title\<close>,
  \<open>video_id\<close>, \<open>id\<close> and \<open>url\<close>; \<open>None\<close> is a missing key.
\<close>

record video_dict =
  d_title :: "pystr option"
  d_video_id :: "pystr option"
  d_id :: "pystr option"
  d_url :: "pystr option"

text \<open>\<open>a or b\<close> on values that are \<open>None\<close> or a string.\<close>

definition py_or :: "pystr option \<Rightarrow> pystr option \<Rightarrow> pystr option" where
  "py_or a b = (case a of None \<Rightarrow> b | Some s \<Rightarrow> if s = [] then b else a)"

text \<open>
  \<open>display_youtube_list\<close>. The watch URL is written out a second time in app.py, with
  the same text as in the backend.
\<close>

fun display_youtube_list :: "video_dict list \<Rightarrow> widget_call list" where
  "display_youtube_list [] = []"
| "display_youtube_list (v # videos) =
     (let t = (case d_title v of None \<Rightarrow> py ''YouTube video'' | Some s \<Rightarrow> s)
      in case py_or (py_or (d_video_id v) (d_id v)) (d_url v) of
           None \<Rightarrow> display_youtube_list videos
         | Some ident \<Rightarrow>
             if ident = [] then display_youtube_list videos
             else [Markdown (py ''**'' @ t @ py ''**''),
                   Video (if startswith ident (py ''http'') then ident else watch_url ident)]
                  @ display_youtube_list videos)"

text \<open>An entry of \<open>related_videos\<close> as it arrives at the client.\<close>

definition video_json :: "video \<Rightarrow> video_dict" where
  "video_json v = \<lparr>d_title = Some (title v), d_video_id = Some (video_id v), d_id = None,
                   d_url = Some (url v)\<rparr>"


section \<open>Sample inputs\<close>

text \<open>
  Three environments: a configured provider that finds one video, one whose request
  fails, and one without an API key.
\<close>

definition sample_client :: "pystr \<Rightarrow> pystr \<Rightarrow> int \<Rightarrow> exn + yt_response" where
  "sample_client key query max_results =
     Inr (Some [\<lparr>snippet_title = Some (py ''Intro''), id_videoId = Some (py ''dQw4w9WgXcQ'')\<rparr>])"

definition sample_env :: environment where
  "sample_env = \<lparr>YOUTUBE_API_KEY = Some (py ''key''), youtube_build = Some sample_client\<rparr>"

definition failing_client :: "pystr \<Rightarrow> pystr \<Rightarrow> int \<Rightarrow> exn + yt_response" where
  "failing_client key query max_results = Inl (ApiError (py ''quotaExceeded''))"

definition failing_env :: environment where
  "failing_env = \<lparr>YOUTUBE_API_KEY = Some (py ''key''), youtube_build = Some failing_client\<rparr>"

definition unconfigured_env :: environment where
  "unconfigured_env = \<lparr>YOUTUBE_API_KEY = None, youtube_build = Some sample_client\<rparr>"

text \<open>
  Sources: the example of the specification, \<open>print('hi')\n\nprint('bye')\<close>, and a
  source whose first line is empty.
\<close>

definition sample_source :: pystr where
  "sample_source = py ''print('hi')'' @ [LF, LF] @ py ''print('bye')''"

definition blank_first_source :: pystr where
  "blank_first_source = LF # py ''print(1)''"

text \<open>
  A source with a form feed and one newline, and one with \<open>\r\n\<close> and a line of
  whitespace.
\<close>

definition form_feed_source :: pystr where
  "form_feed_source = [97, 12, 98, LF, 99]"

definition crlf_source :: pystr where
  "crlf_source = [97, CR, LF, 32, 9, LF, 98]"

text \<open>Requests for a source, with the default options and with videos switched off.\<close>

definition request_of :: "pystr \<Rightarrow> ExplainRequest" where
  "request_of src =
     \<lparr>code = src, language = py ''python'', user_level = py ''beginner'',
      options = Some Options_default\<rparr>"

definition request_without_videos :: "pystr \<Rightarrow> ExplainRequest" where
  "request_without_videos src =
     \<lparr>code = src, language = py ''python'', user_level = py ''beginner'',
      options = Some (Options_default\<lparr>include_youtube := Some False\<rparr>)\<rparr>"

text \<open>
  Request bodies: one with a budget of 5 tokens, one with an empty source, one in a
  language the client does not offer.
\<close>

definition sample_body :: request_json where
  "sample_body =
     \<lparr>j_code = py ''x = 1'', j_language = py ''cobol'', j_user_level = py ''beginner'',
      j_options = Given \<lparr>j_safe_run = Absent, j_include_youtube = Given False,
                         j_max_tokens = Given 5\<rparr>\<rparr>"

definition empty_body :: request_json where
  "empty_body =
     \<lparr>j_code = [], j_language = py ''python'', j_user_level = py ''beginner'',
      j_options = Absent\<rparr>"

definition cobol_body :: request_json where
  "cobol_body =
     \<lparr>j_code = py ''x = 1'', j_language = py ''cobol'', j_user_level = py ''beginner'',
      j_options = Absent\<rparr>"

text \<open>Forms of the client: one holding code, one holding only whitespace.\<close>

definition sample_form :: form where
  "sample_form =
     \<lparr>explain_btn = True, fix_btn = False, practice_btn = False, code_area = py ''x = 1'',
      lang = python, expertise = Beginner, w_safe_run = False, w_include_youtube = True,
      w_max_tokens = 1024\<rparr>"


text \<open>Video dictionaries: one with a bare identifier, one with a full URL only.\<close>

definition sample_dict :: video_dict where
  "sample_dict =
     \<lparr>d_title = Some (py ''Intro''), d_video_id = Some (py ''dQw4w9WgXcQ''), d_id = None,
      d_url = None\<rparr>"

definition sample_url_dict :: video_dict where
  "sample_url_dict =
     \<lparr>d_title = None, d_video_id = None, d_id = None,
      d_url = Some (py ''https://youtu.be/dQw4w9WgXcQ'')\<rparr>"

text \<open>
  Two more: a bare identifier that begins with \<open>http\<close>, and a URL whose scheme is
  written in capitals.
\<close>

definition http_id_dict :: video_dict where
  "http_id_dict =
     \<lparr>d_title = None, d_video_id = Some (py ''httpABCDEFG''), d_id = None, d_url = None\<rparr>"

definition upper_url_dict :: video_dict where
  "upper_url_dict =
     \<lparr>d_title = None, d_video_id = None, d_id = None,
      d_url = Some (py ''HTTPS://youtu.be/x'')\<rparr>"


section \<open>Terms of the specification\<close>

text \<open>
  The situations the specification names for the video provider: no credentials (no API
  key, an empty one, or no client library), and a search that raises (the client or the
  reading of its answer).
\<close>

definition credentials_absent :: "environment \<Rightarrow> bool" where
  "credentials_absent env \<longleftrightarrow>
     (case YOUTUBE_API_KEY env of None \<Rightarrow> True | Some key \<Rightarrow> key = []) \<or>
     (case youtube_build env of None \<Rightarrow> True | Some client \<Rightarrow> False)"

definition search_raises :: "environment \<Rightarrow> pystr \<Rightarrow> int \<Rightarrow> bool" where
  "search_raises env query max_results \<longleftrightarrow>
     (case YOUTUBE_API_KEY env of
        None \<Rightarrow> False
      | Some key \<Rightarrow>
          (case youtube_build env of
             None \<Rightarrow> False
           | Some client \<Rightarrow> isl (youtube_try client key query max_results)))"

text \<open>
  The query as the specification words it (4.4): the first non-empty line of the
  submission, truncated to 50 characters.
\<close>

definition spec_video_query :: "pystr \<Rightarrow> pystr option" where
  "spec_video_query src = map_option (take 50) (find (\<lambda>l. l \<noteq> []) (splitlines src))"

text \<open>
  The line index as the specification words it (4.2): the source is cut at newline
  boundaries, taken here as \<open>\n\<close>, \<open>\r\n\<close> and \<open>\r\<close>; the lines that are not blank
  are kept, each with its 1-based position among all lines.
\<close>

definition is_newline :: "nat \<Rightarrow> bool" where
  "is_newline c \<longleftrightarrow> c = LF \<or> c = CR"

fun newline_lines_from :: "pystr \<Rightarrow> pystr \<Rightarrow> pystr list" where
  "newline_lines_from cur [] = (if cur = [] then [] else [cur])"
| "newline_lines_from cur [c] = (if is_newline c then [cur] else [cur @ [c]])"
| "newline_lines_from cur (c # d # cs) =
     (if c = CR \<and> d = LF then cur # newline_lines_from [] cs
      else if is_newline c then cur # newline_lines_from [] (d # cs)
      else newline_lines_from (cur @ [c]) (d # cs))"

definition spec_line_index :: "pystr \<Rightarrow> (int \<times> pystr) list" where
  "spec_line_index src =
     map (\<lambda>(i, l). (int i, l))
       (filter (\<lambda>(i, l). \<exists>c\<in>set l. \<not> is_space c) (enumerate 1 (newline_lines_from [] src)))"

text \<open>
  The two forms of an identifier the specification names (3, 4.4): a bare provider id,
  taken here as a non-empty string of letters, digits, \<open>-\<close> and \<open>_\<close>, and a full URL,
  taken as a string that begins with \<open>http://\<close> or \<open>https://\<close> in letters of either
  case.
\<close>

definition id_char :: "nat \<Rightarrow> bool" where
  "id_char c \<longleftrightarrow>
     (48 \<le> c \<and> c \<le> 57) \<or> (65 \<le> c \<and> c \<le> 90) \<or> (97 \<le> c \<and> c \<le> 122) \<or> c = 45 \<or> c = 95"

definition bare_identifier :: "pystr \<Rightarrow> bool" where
  "bare_identifier s \<longleftrightarrow> s \<noteq> [] \<and> list_all id_char s"

definition full_url :: "pystr \<Rightarrow> bool" where
  "full_url s \<longleftrightarrow>
     startswith (lower s) (py ''http://'') \<or> startswith (lower s) (py ''https://'')"


section \<open>Lines and blank strings\<close>

lemma splitlines_from_plain:
  "\<not> is_linebreak c \<Longrightarrow> splitlines_from cur (c # cs) = splitlines_from (cur @ [c]) cs"
  by (cases cs) (auto simp: is_linebreak_def CR_def)

lemma splitlines_from_LF:
  "splitlines_from cur (LF # cs) = cur # splitlines_from [] cs"
  by (cases cs) (auto simp: is_linebreak_def CR_def LF_def)

lemma splitlines_from_append:
  "\<forall>c\<in>set l. \<not> is_linebreak c \<Longrightarrow> splitlines_from cur (l @ s) = splitlines_from (cur @ l) s"
  by (induction l arbitrary: cur) (simp_all add: splitlines_from_plain)

lemma splitlines_terminated:
  "\<forall>l\<in>set ls. \<forall>c\<in>set l. \<not> is_linebreak c \<Longrightarrow>
   splitlines_from [] (concat (map (\<lambda>l. l @ [LF]) ls)) = ls"
  by (induction ls) (simp_all add: splitlines_from_append splitlines_from_LF)

lemma strip_empty_iff: "strip s = [] \<longleftrightarrow> (\<forall>c\<in>set s. is_space c)"
proof -
  have "(\<forall>c\<in>set (dropWhile is_space s). is_space c) \<longleftrightarrow> (\<forall>c\<in>set s. is_space c)"
  proof
    assume rest: "\<forall>c\<in>set (dropWhile is_space s). is_space c"
    show "\<forall>c\<in>set s. is_space c"
    proof (rule ccontr)
      assume "\<not> (\<forall>c\<in>set s. is_space c)"
      then have ne: "dropWhile is_space s \<noteq> []"
        by (simp add: dropWhile_eq_Nil_conv)
      then have "\<not> is_space (hd (dropWhile is_space s))"
        by (rule hd_dropWhile)
      moreover have "hd (dropWhile is_space s) \<in> set (dropWhile is_space s)"
        using ne by (rule hd_in_set)
      ultimately show False
        using rest by blast
    qed
  next
    assume "\<forall>c\<in>set s. is_space c"
    then show "\<forall>c\<in>set (dropWhile is_space s). is_space c"
      by (auto dest: set_dropWhileD)
  qed
  then show ?thesis
    by (simp add: strip_def dropWhile_eq_Nil_conv)
qed


lemma splitlines_from_no_break:
  "l \<in> set (splitlines_from cur s) \<Longrightarrow> \<forall>c\<in>set cur. \<not> is_linebreak c \<Longrightarrow>
   \<forall>c\<in>set l. \<not> is_linebreak c"
proof (induction cur s rule: splitlines_from.induct)
  case (1 cur)
  then show ?case by (simp split: if_splits)
next
  case (2 cur c)
  then show ?case by (auto split: if_splits)
next
  case (3 cur c d cs)
  consider (crlf) "c = CR \<and> d = LF"
    | (brk) "\<not> (c = CR \<and> d = LF)" "is_linebreak c"
    | (plain) "\<not> (c = CR \<and> d = LF)" "\<not> is_linebreak c"
    by blast
  then show ?case
  proof cases
    case crlf
    with "3.prems"(1) have "l = cur \<or> l \<in> set (splitlines_from [] cs)"
      by simp
    with "3.IH"(1) [OF crlf] "3.prems"(2) show ?thesis
      by auto
  next
    case brk
    with "3.prems"(1) have "l = cur \<or> l \<in> set (splitlines_from [] (d # cs))"
      by simp
    with "3.IH"(2) [OF brk] "3.prems"(2) show ?thesis
      by auto
  next
    case plain
    with "3.prems"(1) have "l \<in> set (splitlines_from (cur @ [c]) (d # cs))"
      by simp
    moreover from plain "3.prems"(2) have "\<forall>x\<in>set (cur @ [c]). \<not> is_linebreak x"
      by simp
    ultimately show ?thesis
      using "3.IH"(3) [OF plain] by blast
  qed
qed


section \<open>The line index\<close>

lemma explain_lines_enumerate:
  "explain_lines (int n) ls acc =
     acc @ map (\<lambda>(i, l). explain_entry (int i) l)
             (filter (\<lambda>(i, l). strip l \<noteq> []) (enumerate n ls))"
proof (induction ls arbitrary: n acc)
  case Nil
  then show ?case by simp
next
  case (Cons line rest)
  have "int n + 1 = int (Suc n)"
    by simp
  then have "explain_lines (int n) (line # rest) acc =
      explain_lines (int (Suc n)) rest
        (if strip line \<noteq> [] then acc @ [explain_entry (int n) line] else acc)"
    by (simp only: explain_lines.simps)
  then show ?case
    by (simp add: Cons.IH del: of_nat_Suc)
qed

lemma lines_of_source:
  "explain_lines 1 ls [] =
     map (\<lambda>(i, l). explain_entry (int i) l) (filter (\<lambda>(i, l). strip l \<noteq> []) (enumerate 1 ls))"
  using explain_lines_enumerate [of 1 ls "[]"] by simp







section \<open>The handler and the video search\<close>

lemma splitlines_from_Nil_iff: "splitlines_from cur s = [] \<longleftrightarrow> cur = [] \<and> s = []"
  by (induction cur s rule: splitlines_from.induct) simp_all

lemma splitlines_Nil_iff: "splitlines s = [] \<longleftrightarrow> s = []"
  by (simp add: splitlines_def splitlines_from_Nil_iff)

lemma explain_no_options:
  "options req = None \<Longrightarrow>
   explain env req =
     (Inl internal_server_error, [Logger_exception (py ''Error in /explain: %s'') AttributeError])"
  by (simp add: explain_def explain_try_def Let_def)

lemma explain_no_first_line:
  "options req = Some opts \<Longrightarrow> include_youtube opts = Some True \<Longrightarrow> splitlines (code req) = [] \<Longrightarrow>
   explain env req =
     (Inl internal_server_error, [Logger_exception (py ''Error in /explain: %s'') IndexError])"
  by (simp add: explain_def explain_try_def Let_def)

lemma explain_video_off:
  "options req = Some opts \<Longrightarrow> include_youtube opts \<noteq> Some True \<Longrightarrow>
   explain env req =
     (Inr \<lparr>summary = py ''Explained '' @
                str_int (int (length (explain_lines 1 (splitlines (code req)) []))) @
                py '' lines.'',
           lines = explain_lines 1 (splitlines (code req)) [],
           related_videos = []\<rparr>, [])"
  by (simp add: explain_def explain_try_def Let_def)

lemma explain_video_on:
  "options req = Some opts \<Longrightarrow> include_youtube opts = Some True \<Longrightarrow>
   splitlines (code req) = first # rest \<Longrightarrow>
   explain env req =
     (Inr \<lparr>summary = py ''Explained '' @
                str_int (int (length (explain_lines 1 (splitlines (code req)) []))) @
                py '' lines.'',
           lines = explain_lines 1 (splitlines (code req)) [],
           related_videos = fst (youtube_search env (take 50 first) 3)\<rparr>,
      snd (youtube_search env (take 50 first) 3))"
  by (simp add: explain_def explain_try_def Let_def split: prod.splits)

lemma explain_response:
  assumes "fst (explain env req) = Inr resp"
  shows "lines resp = explain_lines 1 (splitlines (code req)) []"
    and "summary resp = py ''Explained '' @ str_int (int (length (lines resp))) @ py '' lines.''"
proof -
  from assms obtain opts where opts: "options req = Some opts"
    by (cases "options req") (simp_all add: explain_no_options)
  show "lines resp = explain_lines 1 (splitlines (code req)) []"
  proof (cases "include_youtube opts = Some True")
    case False
    with assms opts show ?thesis
      by (auto simp: explain_video_off)
  next
    case True
    with assms opts show ?thesis
      by (cases "splitlines (code req)") (auto simp: explain_no_first_line explain_video_on)
  qed
  then show "summary resp = py ''Explained '' @ str_int (int (length (lines resp))) @ py '' lines.''"
  proof (cases "include_youtube opts = Some True")
    case False
    with assms opts show ?thesis
      by (auto simp: explain_video_off)
  next
    case True
    with assms opts show ?thesis
      by (cases "splitlines (code req)") (auto simp: explain_no_first_line explain_video_on)
  qed
qed

lemma youtube_search_unavailable:
  "credentials_absent env \<or> search_raises env query n \<Longrightarrow> fst (youtube_search env query n) = []"
  by (auto simp: credentials_absent_def search_raises_def youtube_search_def isl_def
      split: option.splits sum.splits)

lemma youtube_search_calls:
  "\<exists>more. snd (youtube_search env query n) = Youtube_search query n # more \<and>
          (\<forall>q m. Youtube_search q m \<notin> set more)"
  by (auto simp: youtube_search_def split: option.splits sum.splits)

lemma youtube_videos_url:
  "youtube_videos items acc = Inr vs \<Longrightarrow> \<forall>v\<in>set acc. url v = watch_url (video_id v) \<Longrightarrow>
   \<forall>v\<in>set vs. url v = watch_url (video_id v)"
  by (induction items arbitrary: acc) (auto split: option.splits)

lemma youtube_search_url:
  "v \<in> set (fst (youtube_search env query n)) \<Longrightarrow> url v = watch_url (video_id v)"
  using youtube_videos_url [of _ "[]"]
  by (auto simp: youtube_search_def youtube_try_def split: option.splits sum.splits if_splits)

section \<open>Claims about the line index\<close>

lemma sample_source_lines:
  "splitlines sample_source = [py ''print('hi')'', [], py ''print('bye')'']"
  by (simp add: sample_source_def splitlines_def py_def LF_def CR_def is_linebreak_def)

lemma strip_Nil: "strip [] = []"
  by (simp add: strip_def)

lemma strip_sample_lines:
  "strip (py ''print('hi')'') \<noteq> []" "strip (py ''print('bye')'') \<noteq> []"
  by (simp_all add: strip_def py_def is_space_def)

lemma splitlines_from_CRLF:
  "splitlines_from cur (CR # LF # rest) = cur # splitlines_from [] rest"
  by simp

lemma splitlines_from_boundary:
  "is_linebreak b \<Longrightarrow> \<not> (b = CR \<and> take 1 rest = [LF]) \<Longrightarrow>
   splitlines_from cur (b # rest) = cur # splitlines_from [] rest"
  by (cases rest) auto

lemma newline_is_linebreak: "is_newline c \<Longrightarrow> is_linebreak c"
  by (auto simp: is_newline_def is_linebreak_def LF_def CR_def)

lemma newline_lines_from_eq:
  "\<forall>c\<in>set s. is_linebreak c \<longrightarrow> is_newline c \<Longrightarrow>
   newline_lines_from cur s = splitlines_from cur s"
proof (induction cur s rule: splitlines_from.induct)
  case (1 cur)
  then show ?case by simp
next
  case (2 cur c)
  then show ?case by (auto dest: newline_is_linebreak)
next
  case (3 cur c d cs)
  from "3.prems" have same: "is_newline c \<longleftrightarrow> is_linebreak c"
    by (auto dest: newline_is_linebreak)
  from "3.prems" have rest: "\<forall>x\<in>set cs. is_linebreak x \<longrightarrow> is_newline x"
    "\<forall>x\<in>set (d # cs). is_linebreak x \<longrightarrow> is_newline x"
    by simp_all
  consider (crlf) "c = CR \<and> d = LF"
    | (brk) "\<not> (c = CR \<and> d = LF)" "is_linebreak c"
    | (plain) "\<not> (c = CR \<and> d = LF)" "\<not> is_linebreak c"
    by blast
  then show ?case
  proof cases
    case crlf
    with "3.IH"(1) [OF crlf rest(1)] show ?thesis by simp
  next
    case brk
    with same have "newline_lines_from cur (c # d # cs) = cur # newline_lines_from [] (d # cs)"
      by auto
    moreover from brk have "splitlines_from cur (c # d # cs) = cur # splitlines_from [] (d # cs)"
      by auto
    ultimately show ?thesis
      using "3.IH"(2) [OF brk rest(2)] by simp
  next
    case plain
    with same have "newline_lines_from cur (c # d # cs) = newline_lines_from (cur @ [c]) (d # cs)"
      by auto
    moreover from plain
    have "splitlines_from cur (c # d # cs) = splitlines_from (cur @ [c]) (d # cs)"
      by auto
    ultimately show ?thesis
      using "3.IH"(3) [OF plain rest(2)] by simp
  qed
qed

lemma not_blank_iff: "strip l \<noteq> [] \<longleftrightarrow> (\<exists>c\<in>set l. \<not> is_space c)"
  by (simp add: strip_empty_iff)

lemma index_of_source:
  "map (\<lambda>e. (line_number e, line_code e)) (explain_lines 1 (splitlines src) []) =
     map (\<lambda>(i, l). (int i, l))
       (filter (\<lambda>(i, l). \<exists>c\<in>set l. \<not> is_space c) (enumerate 1 (splitlines src)))"
  by (simp add: lines_of_source explain_entry_def case_prod_unfold comp_def not_blank_iff)

lemma form_feed_lines: "splitlines form_feed_source = [[97], [98], [99]]"
  by (simp add: form_feed_source_def splitlines_def is_linebreak_def LF_def CR_def)

text \<open>
  A source with a form feed and a single newline: the handler cuts it into three lines
  and numbers \<open>c\<close> as line 3, while cut at its newline it has two lines, \<open>c\<close> the
  second.
\<close>

theorem line_index_counterexample:
  "map (\<lambda>e. (line_number e, line_code e)) (explain_lines 1 (splitlines form_feed_source) []) =
     [(1, [97]), (2, [98]), (3, [99])] \<and>
   spec_line_index form_feed_source = [(1, [97, 12, 98]), (2, [99])]"
proof -
  have "map (\<lambda>e. (line_number e, line_code e)) (explain_lines 1 (splitlines form_feed_source) []) =
     [(1, [97]), (2, [98]), (3, [99])]"
    by (simp add: form_feed_lines explain_entry_def not_blank_iff is_space_def)
  moreover have "spec_line_index form_feed_source = [(1, [97, 12, 98]), (2, [99])]"
    by (simp add: spec_line_index_def form_feed_source_def is_newline_def LF_def CR_def
        is_space_def)
  ultimately show ?thesis by simp
qed

text \<open>
  Claim C3, amended. The lines of a source are cut at the line boundaries of
  \<open>str.splitlines\<close>: the ten characters listed, with \<open>\r\n\<close> as a single boundary. A
  boundary closes the line before it, an empty one too, and text after the last boundary
  is a last line. The index keeps the lines that hold a character other than whitespace,
  in source order, each with its 1-based position among all the lines so cut, blank ones
  counted. For a source whose only boundaries are newlines (\<open>\n\<close>, \<open>\r\n\<close>, \<open>\r\<close>) this
  is the index of its newline-separated lines; the source
  \<open>print('hi')\n\nprint('bye')\<close> gives \<open>(1, print('hi'))\<close> and \<open>(3, print('bye'))\<close>.
\<close>

theorem line_index_numbering:
  "(is_linebreak b \<longleftrightarrow> b \<in> {10, 11, 12, 13, 28, 29, 30, 133, 8232, 8233}) \<and>
   splitlines [] = [] \<and>
   ((\<forall>c\<in>set l. \<not> is_linebreak c) \<and> l \<noteq> [] \<longrightarrow> splitlines l = [l]) \<and>
   ((\<forall>c\<in>set l. \<not> is_linebreak c) \<longrightarrow>
      splitlines (l @ CR # LF # rest) = l # splitlines rest) \<and>
   ((\<forall>c\<in>set l. \<not> is_linebreak c) \<and> is_linebreak b \<and> \<not> (b = CR \<and> take 1 rest = [LF]) \<longrightarrow>
      splitlines (l @ b # rest) = l # splitlines rest) \<and>
   map (\<lambda>e. (line_number e, line_code e)) (explain_lines 1 (splitlines src) []) =
     map (\<lambda>(i, l). (int i, l))
       (filter (\<lambda>(i, l). \<exists>c\<in>set l. \<not> is_space c) (enumerate 1 (splitlines src))) \<and>
   ((\<forall>c\<in>set src. is_linebreak c \<longrightarrow> c = LF \<or> c = CR) \<longrightarrow>
      map (\<lambda>e. (line_number e, line_code e)) (explain_lines 1 (splitlines src) []) =
        spec_line_index src) \<and>
   map (\<lambda>e. (line_number e, line_code e)) (explain_lines 1 (splitlines sample_source) []) =
     [(1, py ''print('hi')''), (3, py ''print('bye')'')]"
proof (intro conjI impI)
  show "is_linebreak b \<longleftrightarrow> b \<in> {10, 11, 12, 13, 28, 29, 30, 133, 8232, 8233}"
    by (simp add: is_linebreak_def)
  show "splitlines [] = []"
    by (simp add: splitlines_def)
next
  assume "(\<forall>c\<in>set l. \<not> is_linebreak c) \<and> l \<noteq> []"
  then show "splitlines l = [l]"
    using splitlines_from_append [of l "[]" "[]"] by (simp add: splitlines_def)
next
  assume "\<forall>c\<in>set l. \<not> is_linebreak c"
  then show "splitlines (l @ CR # LF # rest) = l # splitlines rest"
    by (simp add: splitlines_def splitlines_from_append del: splitlines_from.simps)
      (simp add: splitlines_from_CRLF)
next
  assume "(\<forall>c\<in>set l. \<not> is_linebreak c) \<and> is_linebreak b \<and> \<not> (b = CR \<and> take 1 rest = [LF])"
  then show "splitlines (l @ b # rest) = l # splitlines rest"
    by (simp add: splitlines_def splitlines_from_append splitlines_from_boundary
        del: splitlines_from.simps)
next
  show "map (\<lambda>e. (line_number e, line_code e)) (explain_lines 1 (splitlines src) []) =
     map (\<lambda>(i, l). (int i, l))
       (filter (\<lambda>(i, l). \<exists>c\<in>set l. \<not> is_space c) (enumerate 1 (splitlines src)))"
    by (rule index_of_source)
next
  assume "\<forall>c\<in>set src. is_linebreak c \<longrightarrow> c = LF \<or> c = CR"
  then have "newline_lines_from [] src = splitlines src"
    by (simp add: splitlines_def newline_lines_from_eq is_newline_def)
  then show "map (\<lambda>e. (line_number e, line_code e)) (explain_lines 1 (splitlines src) []) =
      spec_line_index src"
    by (simp add: index_of_source spec_line_index_def)
next
  show "map (\<lambda>e. (line_number e, line_code e)) (explain_lines 1 (splitlines sample_source) []) =
     [(1, py ''print('hi')''), (3, py ''print('bye')'')]"
    by (simp add: sample_source_lines strip_sample_lines strip_Nil explain_entry_def)
qed

lemma sample_splits:
  "splitlines crlf_source = [[97], [32, 9], [98]]"
  "splitlines [97, 133, 160, 8232, 98] = [[97], [160], [98]]"
  by (simp_all add: crlf_source_def splitlines_def is_linebreak_def LF_def CR_def)

theorem line_index_numbering_witness:
  "splitlines crlf_source = [[97], [32, 9], [98]] \<and>
   map (\<lambda>e. (line_number e, line_code e)) (explain_lines 1 (splitlines crlf_source) []) =
     [(1, [97]), (3, [98])] \<and>
   spec_line_index crlf_source = [(1, [97]), (3, [98])] \<and>
   map (\<lambda>e. (line_number e, line_code e)) (explain_lines 1 (splitlines [97, 133, 160, 8232, 98]) []) =
     [(1, [97]), (3, [98])]"
proof -
  note crlf = line_index_numbering [of LF "[]" "[]" crlf_source]
  note other = line_index_numbering [of LF "[]" "[]" "[97, 133, 160, 8232, 98]"]
  have only: "\<forall>c\<in>set crlf_source. is_linebreak c \<longrightarrow> c = LF \<or> c = CR"
    by (simp add: crlf_source_def is_linebreak_def LF_def CR_def)
  from crlf have "map (\<lambda>e. (line_number e, line_code e)) (explain_lines 1 (splitlines crlf_source) []) =
     map (\<lambda>(i, l). (int i, l))
       (filter (\<lambda>(i, l). \<exists>c\<in>set l. \<not> is_space c) (enumerate 1 (splitlines crlf_source)))"
    by blast
  then have index: "map (\<lambda>e. (line_number e, line_code e))
      (explain_lines 1 (splitlines crlf_source) []) = [(1, [97]), (3, [98])]"
    by (simp only: sample_splits) (simp add: is_space_def)
  from crlf only have "map (\<lambda>e. (line_number e, line_code e))
      (explain_lines 1 (splitlines crlf_source) []) = spec_line_index crlf_source"
    by blast
  with index have spec: "spec_line_index crlf_source = [(1, [97]), (3, [98])]"
    by simp
  from other have "map (\<lambda>e. (line_number e, line_code e))
      (explain_lines 1 (splitlines [97, 133, 160, 8232, 98]) []) =
     map (\<lambda>(i, l). (int i, l))
       (filter (\<lambda>(i, l). \<exists>c\<in>set l. \<not> is_space c)
         (enumerate 1 (splitlines [97, 133, 160, 8232, 98])))"
    by blast
  then have "map (\<lambda>e. (line_number e, line_code e))
      (explain_lines 1 (splitlines [97, 133, 160, 8232, 98]) []) = [(1, [97]), (3, [98])]"
    by (simp only: sample_splits) (simp add: is_space_def)
  with index spec show ?thesis
    by (simp add: sample_splits)
qed


lemma py_Nil_iff: "py s = [] \<longleftrightarrow> s = []"
  by (simp add: py_def)

lemma sample_texts:
  "py ''Explained '' @ str_int 2 @ py '' lines.'' = py ''Explained 2 lines.''"
  "py ''Explained '' @ str_int 0 @ py '' lines.'' = py ''Explained 0 lines.''"
  "watch_url (py ''dQw4w9WgXcQ'') = py ''https://www.youtube.com/watch?v=dQw4w9WgXcQ''"
  by (simp_all add: py_def str_int_def digits.simps watch_url_def)

lemma sample_response:
  "fst (explain sample_env (request_of sample_source)) =
     Inr \<lparr>summary = py ''Explained 2 lines.'',
          lines = [explain_entry 1 (py ''print('hi')''), explain_entry 3 (py ''print('bye')'')],
          related_videos =
            [\<lparr>title = py ''Intro'', video_id = py ''dQw4w9WgXcQ'',
              url = py ''https://www.youtube.com/watch?v=dQw4w9WgXcQ''\<rparr>]\<rparr>"
proof -
  have "options (request_of sample_source) = Some Options_default"
    "include_youtube Options_default = Some True"
    "splitlines (code (request_of sample_source)) = py ''print('hi')'' # [[], py ''print('bye')'']"
    by (simp_all add: request_of_def Options_default_def sample_source_lines)
  from explain_video_on [OF this, of sample_env] show ?thesis
    by (simp add: request_of_def sample_source_lines strip_sample_lines strip_Nil
        youtube_search_def sample_env_def youtube_try_def sample_client_def
        py_Nil_iff sample_texts)
qed





section \<open>Claims about the video search\<close>

lemma request_with_videos:
  "request_without_videos src \<lparr>options := Some (Options_default
      \<lparr>include_youtube := Some False\<rparr>\<lparr>include_youtube := Some True\<rparr>)\<rparr> = request_of src"
  by (simp add: request_without_videos_def request_of_def Options_default_def)

text \<open>
  The empty source with videos switched off is answered with a response; the same
  request with videos enabled is answered with the error 500, so it has no summary and
  no lines to compare with.
\<close>

theorem video_off_counterexample:
  "explain sample_env (request_without_videos []) =
     (Inr \<lparr>summary = py ''Explained 0 lines.'', lines = [], related_videos = []\<rparr>, []) \<and>
   request_without_videos [] \<lparr>options := Some (Options_default
      \<lparr>include_youtube := Some False\<rparr>\<lparr>include_youtube := Some True\<rparr>)\<rparr> = request_of [] \<and>
   fst (explain sample_env (request_of [])) = Inl internal_server_error"
proof -
  have "options (request_without_videos []) = Some (Options_default\<lparr>include_youtube := Some False\<rparr>)"
    "include_youtube (Options_default\<lparr>include_youtube := Some False\<rparr>) \<noteq> Some True"
    by (simp_all add: request_without_videos_def)
  from explain_video_off [OF this, of sample_env]
  have off: "explain sample_env (request_without_videos []) =
     (Inr \<lparr>summary = py ''Explained 0 lines.'', lines = [], related_videos = []\<rparr>, [])"
    by (simp add: request_without_videos_def splitlines_def sample_texts)
  have on: "fst (explain sample_env (request_of [])) = Inl internal_server_error"
    by (simp add: explain_no_first_line [of _ Options_default] request_of_def
        Options_default_def splitlines_Nil_iff)
  have "request_without_videos [] \<lparr>options := Some (Options_default
      \<lparr>include_youtube := Some False\<rparr>\<lparr>include_youtube := Some True\<rparr>)\<rparr> = request_of []"
    by (rule request_with_videos)
  with off on show ?thesis
    by (intro conjI)
qed

text \<open>
  Claim C9, amended. When the options of a request set \<open>include_youtube\<close> to false, the
  video search is not invoked (the handler makes no call at all) and the response is a
  success whose \<open>related_videos\<close> is empty. Its summary and lines are those of the
  response to the same request with videos enabled whenever that request is answered
  with a response, and it is so answered for every source that is not empty.
\<close>

theorem video_off_skips_search:
  assumes "options req = Some opts" and "include_youtube opts = Some False"
  shows "snd (explain env req) = [] \<and>
         (\<exists>resp. fst (explain env req) = Inr resp \<and> related_videos resp = [] \<and>
            (\<forall>resp'. fst (explain env (req\<lparr>options := Some (opts\<lparr>include_youtube := Some True\<rparr>)\<rparr>)) =
                        Inr resp' \<longrightarrow>
                      summary resp' = summary resp \<and> lines resp' = lines resp) \<and>
            (code req \<noteq> [] \<longrightarrow>
               (\<exists>resp'. fst (explain env (req\<lparr>options := Some (opts\<lparr>include_youtube := Some True\<rparr>)\<rparr>)) =
                          Inr resp' \<and>
                        summary resp' = summary resp \<and> lines resp' = lines resp)))"
proof -
  from assms have off: "include_youtube opts \<noteq> Some True"
    by simp
  let ?on = "req\<lparr>options := Some (opts\<lparr>include_youtube := Some True\<rparr>)\<rparr>"
  let ?s = "py ''Explained '' @ str_int (int (length (explain_lines 1 (splitlines (code req)) []))) @
          py '' lines.''"
  have same: "summary resp' = ?s \<and> lines resp' = explain_lines 1 (splitlines (code req)) []"
    if "fst (explain env ?on) = Inr resp'" for resp'
    using explain_response [OF that] by simp
  have answered: "\<exists>resp'. fst (explain env ?on) = Inr resp'" if "code req \<noteq> []"
  proof -
    from that obtain first rest where "splitlines (code ?on) = first # rest"
      by (cases "splitlines (code req)") (simp_all add: splitlines_Nil_iff)
    from explain_video_on [of ?on "opts\<lparr>include_youtube := Some True\<rparr>" first rest env, OF _ _ this]
    show ?thesis
      by simp
  qed
  have "code req \<noteq> [] \<longrightarrow>
      (\<exists>resp'. fst (explain env ?on) = Inr resp' \<and> summary resp' = ?s \<and>
         lines resp' = explain_lines 1 (splitlines (code req)) [])"
    using answered same by blast
  with same show ?thesis
    by (simp add: explain_video_off [OF assms(1) off])
qed

theorem video_off_skips_search_witness:
  "options (request_without_videos sample_source) =
     Some (Options_default\<lparr>include_youtube := Some False\<rparr>) \<and>
   include_youtube (Options_default\<lparr>include_youtube := Some False\<rparr>) = Some False \<and>
   code (request_without_videos sample_source) \<noteq> [] \<and>
   snd (explain sample_env (request_without_videos sample_source)) = [] \<and>
   fst (explain sample_env (request_without_videos sample_source)) =
     Inr \<lparr>summary = py ''Explained 2 lines.'',
          lines = [explain_entry 1 (py ''print('hi')''), explain_entry 3 (py ''print('bye')'')],
          related_videos = []\<rparr>"
proof -
  have opts: "options (request_without_videos sample_source) =
      Some (Options_default\<lparr>include_youtube := Some False\<rparr>)"
    by (simp add: request_without_videos_def)
  have off: "include_youtube (Options_default\<lparr>include_youtube := Some False\<rparr>) = Some False"
    by simp
  have src: "code (request_without_videos sample_source) \<noteq> []"
    by (simp add: request_without_videos_def sample_source_def)
  from video_off_skips_search [OF opts off, of sample_env] src
  obtain resp resp' where calls: "snd (explain sample_env (request_without_videos sample_source)) = []"
    and resp: "fst (explain sample_env (request_without_videos sample_source)) = Inr resp"
    and none: "related_videos resp = []"
    and on: "fst (explain sample_env (request_of sample_source)) = Inr resp'"
    and same: "summary resp' = summary resp \<and> lines resp' = lines resp"
    unfolding request_with_videos by blast
  from on sample_response same none
  have "resp = \<lparr>summary = py ''Explained 2 lines.'',
          lines = [explain_entry 1 (py ''print('hi')''), explain_entry 3 (py ''print('bye')'')],
          related_videos = []\<rparr>"
    by auto
  with opts off src calls resp show ?thesis
    by simp
qed


section \<open>Claims about failures of the handler\<close>

text \<open>
  Claim C10. A request to /explain whose source is the empty string and whose
  \<open>include_youtube\<close> is true (as it is by default, when the options or that member are
  left out of the body) is answered with status 500 and the detail
  \<open>Internal server error\<close>: reading the first line of the empty list of lines raises
  \<open>IndexError\<close> inside the handler, before the video search is entered.
\<close>

theorem empty_source_internal_error:
  "(code req = [] \<and> options req = Some opts \<and> include_youtube opts = Some True \<longrightarrow>
      explain_try env req = (Inl IndexError, []) \<and>
      explain env req =
        (Inl \<lparr>status_code = 500, detail = py ''Internal server error''\<rparr>,
         [Logger_exception (py ''Error in /explain: %s'') IndexError])) \<and>
   (j_code body = [] \<and>
    (j_options body = Absent \<or> (\<exists>oj. j_options body = Given oj \<and> j_include_youtube oj = Absent)) \<longrightarrow>
      fst (post_explain env body) =
        Inl \<lparr>status_code = 500, detail = py ''Internal server error''\<rparr>)"
proof (intro conjI impI)
  assume req: "code req = [] \<and> options req = Some opts \<and> include_youtube opts = Some True"
  then show "explain_try env req = (Inl IndexError, [])"
    by (simp add: explain_try_def Let_def splitlines_def)
  from req show "explain env req =
        (Inl \<lparr>status_code = 500, detail = py ''Internal server error''\<rparr>,
         [Logger_exception (py ''Error in /explain: %s'') IndexError])"
    by (simp add: explain_no_first_line splitlines_Nil_iff internal_server_error_def)
next
  assume body: "j_code body = [] \<and>
    (j_options body = Absent \<or> (\<exists>oj. j_options body = Given oj \<and> j_include_youtube oj = Absent))"
  then obtain opts where "options (ExplainRequest_model body) = Some opts"
      "include_youtube opts = Some True"
    by (auto simp: ExplainRequest_model_def Options_default_def Options_model_def)
  moreover from body have "splitlines (code (ExplainRequest_model body)) = []"
    by (simp add: ExplainRequest_model_def splitlines_Nil_iff)
  ultimately show "fst (post_explain env body) =
        Inl \<lparr>status_code = 500, detail = py ''Internal server error''\<rparr>"
    by (simp add: post_explain_def explain_no_first_line internal_server_error_def)
qed

theorem empty_source_internal_error_witness:
  "code (request_of []) = [] \<and> options (request_of []) = Some Options_default \<and>
   include_youtube Options_default = Some True \<and>
   explain sample_env (request_of []) =
     (Inl \<lparr>status_code = 500, detail = py ''Internal server error''\<rparr>,
      [Logger_exception (py ''Error in /explain: %s'') IndexError]) \<and>
   j_code empty_body = [] \<and> j_options empty_body = Absent \<and>
   fst (post_explain sample_env empty_body) =
     Inl \<lparr>status_code = 500, detail = py ''Internal server error''\<rparr>"
  using empty_source_internal_error [of "request_of []" Options_default sample_env empty_body]
  by (simp add: request_of_def Options_default_def empty_body_def)

lemma explain_failure_cases:
  assumes "fst (explain env req) = Inl err"
  shows "options req = None \<or>
         (\<exists>opts. options req = Some opts \<and> include_youtube opts = Some True \<and>
                 splitlines (code req) = [])"
proof (cases "options req")
  case None
  then show ?thesis by simp
next
  case (Some opts)
  show ?thesis
  proof (cases "include_youtube opts = Some True")
    case False
    with assms Some show ?thesis
      by (simp add: explain_video_off)
  next
    case True
    with assms Some show ?thesis
      by (cases "splitlines (code req)") (simp_all add: explain_video_on)
  qed
qed

lemma explain_failure_any_env:
  assumes "fst (explain env req) = Inl err"
  shows "explain env' req = explain env req"
  using explain_failure_cases [OF assms]
  by (auto simp: explain_no_options explain_no_first_line)

text \<open>
  Without an API key, the empty source with the default options is answered with the
  error 500, not with a response whose \<open>related_videos\<close> is empty.
\<close>

theorem video_search_counterexample:
  "credentials_absent unconfigured_env \<and>
   fst (explain unconfigured_env (request_of [])) = Inl internal_server_error"
proof -
  have "credentials_absent unconfigured_env"
    by (simp add: credentials_absent_def unconfigured_env_def)
  moreover have "fst (explain unconfigured_env (request_of [])) = Inl internal_server_error"
    by (simp add: explain_no_first_line [of _ Options_default] request_of_def
        Options_default_def splitlines_Nil_iff)
  ultimately show ?thesis
    by simp
qed

text \<open>
  Claim C2, amended. When the credentials of the video provider are absent (no API key,
  or no client library) or the search raises, \<open>youtube_search\<close> returns the empty list;
  it has no way to raise. A request to /explain in that situation, with its options
  present and a source that is not empty, is answered with a response whose
  \<open>related_videos\<close> is empty. A request that is answered with an error is answered with
  the same error in every environment: the provider is never the cause.
\<close>

theorem video_search_fails_soft:
  "(credentials_absent env \<or> search_raises env query n \<longrightarrow>
      fst (youtube_search env query n) = []) \<and>
   (options req = Some opts \<and> code req \<noteq> [] \<and>
    (credentials_absent env \<or> search_raises env (take 50 (hd (splitlines (code req)))) 3) \<longrightarrow>
      (\<exists>resp. fst (explain env req) = Inr resp \<and> related_videos resp = [])) \<and>
   (fst (explain env req) = Inl err \<longrightarrow> explain env' req = explain env req)"
proof (intro conjI impI)
  assume "credentials_absent env \<or> search_raises env query n"
  then show "fst (youtube_search env query n) = []"
    by (rule youtube_search_unavailable)
next
  assume a: "options req = Some opts \<and> code req \<noteq> [] \<and>
    (credentials_absent env \<or> search_raises env (take 50 (hd (splitlines (code req)))) 3)"
  then obtain first rest where ls: "splitlines (code req) = first # rest"
    by (cases "splitlines (code req)") (simp_all add: splitlines_Nil_iff)
  with a have none: "fst (youtube_search env (take 50 first) 3) = []"
    by (simp add: youtube_search_unavailable)
  show "\<exists>resp. fst (explain env req) = Inr resp \<and> related_videos resp = []"
  proof (cases "include_youtube opts = Some True")
    case True
    with a ls none show ?thesis
      by (simp add: explain_video_on)
  next
    case False
    with a show ?thesis
      by (simp add: explain_video_off)
  qed
next
  assume "fst (explain env req) = Inl err"
  then show "explain env' req = explain env req"
    by (rule explain_failure_any_env)
qed

lemma blank_request_lines:
  "options (request_of [32]) = Some Options_default"
  "splitlines (code (request_of [32])) = [32] # []"
  by (simp_all add: request_of_def splitlines_def is_linebreak_def)

theorem video_search_fails_soft_witness:
  "search_raises failing_env (take 50 (hd (splitlines (code (request_of [32]))))) 3 \<and>
   credentials_absent unconfigured_env \<and>
   code (request_of [32]) = [32] \<and>
   fst (youtube_search failing_env [32] 3) = [] \<and>
   fst (youtube_search unconfigured_env [32] 3) = [] \<and>
   (\<exists>resp. fst (explain failing_env (request_of [32])) = Inr resp \<and> related_videos resp = []) \<and>
   (\<exists>resp. fst (explain unconfigured_env (request_of [32])) = Inr resp \<and> related_videos resp = []) \<and>
   fst (explain sample_env (request_of [])) = Inl internal_server_error \<and>
   explain failing_env (request_of []) = explain sample_env (request_of [])"
proof -
  have src: "code (request_of [32]) = [32]"
    by (simp add: request_of_def)
  have raises: "search_raises failing_env q 3" for q
    by (simp add: search_raises_def failing_env_def failing_client_def youtube_try_def)
  have absent: "credentials_absent unconfigured_env"
    by (simp add: credentials_absent_def unconfigured_env_def)
  have failed: "fst (explain sample_env (request_of [])) = Inl internal_server_error"
    by (simp add: explain_no_first_line [of _ Options_default] request_of_def
        Options_default_def splitlines_Nil_iff)
  from raises absent failed src
    video_search_fails_soft [of failing_env "[32]" 3 "request_of [32]" Options_default
      internal_server_error failing_env]
    video_search_fails_soft [of unconfigured_env "[32]" 3 "request_of [32]" Options_default
      internal_server_error failing_env]
    video_search_fails_soft [of sample_env "[32]" 3 "request_of []" Options_default
      internal_server_error failing_env]
  show ?thesis
    by (simp add: blank_request_lines)
qed

lemma blank_first_lines: "splitlines blank_first_source = [[], py ''print(1)'']"
  by (simp add: blank_first_source_def splitlines_def py_def LF_def CR_def is_linebreak_def)

text \<open>
  A source whose first line is empty: the handler searches for the empty string, while
  the first non-empty line is \<open>print(1)\<close>.
\<close>

theorem video_query_counterexample:
  "snd (explain sample_env (request_of blank_first_source)) =
     [Youtube_search [] 3, Youtube_api (py ''key'') [] 3] \<and>
   spec_video_query blank_first_source = Some (py ''print(1)'')"
proof -
  have "options (request_of blank_first_source) = Some Options_default"
    "include_youtube Options_default = Some True"
    "splitlines (code (request_of blank_first_source)) = [] # [py ''print(1)'']"
    by (simp_all add: request_of_def Options_default_def blank_first_lines)
  from explain_video_on [OF this, of sample_env]
  have "snd (explain sample_env (request_of blank_first_source)) =
     [Youtube_search [] 3, Youtube_api (py ''key'') [] 3]"
    by (simp add: youtube_search_def sample_env_def youtube_try_def sample_client_def py_Nil_iff)
  moreover have "spec_video_query blank_first_source = Some (py ''print(1)'')"
    by (simp add: spec_video_query_def blank_first_lines py_Nil_iff) (simp add: py_def)
  ultimately show ?thesis
    by simp
qed

text \<open>
  Claim C4, amended. When videos are requested and the source has at least one line, the
  handler enters the video search exactly once, with the first line of the source cut to
  at most 50 characters as the query, whether that line is empty, blank or not. The query
  is the first non-empty line cut to 50 characters when the first line is itself
  non-empty.
\<close>

theorem video_query_is_first_line:
  assumes "options req = Some opts" and "include_youtube opts = Some True"
    and "splitlines (code req) = first # rest"
  shows "(\<exists>more. snd (explain env req) = Youtube_search (take 50 first) 3 # more \<and>
                 (\<forall>q m. Youtube_search q m \<notin> set more)) \<and>
         length (take 50 first) \<le> 50 \<and>
         (first \<noteq> [] \<longrightarrow> spec_video_query (code req) = Some (take 50 first))"
proof (intro conjI impI)
  show "\<exists>more. snd (explain env req) = Youtube_search (take 50 first) 3 # more \<and>
                 (\<forall>q m. Youtube_search q m \<notin> set more)"
    using youtube_search_calls [of env "take 50 first" 3]
    by (simp add: explain_video_on [OF assms])
  show "length (take 50 first) \<le> 50"
    by simp
next
  assume "first \<noteq> []"
  with assms(3) show "spec_video_query (code req) = Some (take 50 first)"
    by (simp add: spec_video_query_def)
qed

theorem video_query_is_first_line_witness:
  "options (request_of sample_source) = Some Options_default \<and>
   include_youtube Options_default = Some True \<and>
   splitlines (code (request_of sample_source)) = [py ''print('hi')'', [], py ''print('bye')''] \<and>
   (\<exists>more. snd (explain sample_env (request_of sample_source)) =
             Youtube_search (py ''print('hi')'') 3 # more) \<and>
   spec_video_query (code (request_of sample_source)) = Some (py ''print('hi')'')"
proof -
  have opts: "options (request_of sample_source) = Some Options_default"
    and on: "include_youtube Options_default = Some True"
    and ls: "splitlines (code (request_of sample_source)) = py ''print('hi')'' # [[], py ''print('bye')'']"
    by (simp_all add: request_of_def Options_default_def sample_source_lines)
  have short: "take 50 (py ''print('hi')'') = py ''print('hi')''"
    by (simp add: py_def)
  have "py ''print('hi')'' \<noteq> []"
    by (simp add: py_Nil_iff)
  with video_query_is_first_line [OF opts on ls, of sample_env] opts on ls show ?thesis
    by (auto simp: short)
qed


section \<open>Claims about the client and the request models\<close>

lemma startswith_watch_url: "startswith (watch_url ident) (py ''http'')"
  by (simp add: startswith_def watch_url_def py_def)

lemma startswith_scheme:
  "startswith (py ''http://'' @ s) (py ''http'')" "startswith (py ''https://'' @ s) (py ''http'')"
  by (simp_all add: startswith_def py_def)

lemma display_one:
  assumes "py_or (py_or (d_video_id v) (d_id v)) (d_url v) = Some ident" and "ident \<noteq> []"
  shows "display_youtube_list [v] =
    [Markdown (py ''**'' @ (case d_title v of None \<Rightarrow> py ''YouTube video'' | Some s \<Rightarrow> s) @ py ''**''),
     Video (if startswith ident (py ''http'') then ident else watch_url ident)]"
  using assms by (simp add: Let_def)

text \<open>
  A bare identifier that begins with \<open>http\<close> is played as it is, not expanded, and a
  full URL whose scheme is written in capitals is given the watch prefix.
\<close>

theorem identifier_counterexample:
  "bare_identifier (py ''httpABCDEFG'') \<and>
   [u. Video u \<leftarrow> display_youtube_list [http_id_dict]] = [py ''httpABCDEFG''] \<and>
   full_url (py ''HTTPS://youtu.be/x'') \<and>
   [u. Video u \<leftarrow> display_youtube_list [upper_url_dict]] =
     [py ''https://www.youtube.com/watch?v=HTTPS://youtu.be/x'']"
proof -
  have "bare_identifier (py ''httpABCDEFG'')"
    by (simp add: bare_identifier_def id_char_def py_def)
  moreover have "[u. Video u \<leftarrow> display_youtube_list [http_id_dict]] = [py ''httpABCDEFG'']"
    by (simp add: http_id_dict_def py_or_def py_Nil_iff Let_def) (simp add: startswith_def py_def)
  moreover have "full_url (py ''HTTPS://youtu.be/x'')"
    by (simp add: full_url_def lower_def startswith_def py_def)
  moreover have "[u. Video u \<leftarrow> display_youtube_list [upper_url_dict]] =
     [py ''https://www.youtube.com/watch?v=HTTPS://youtu.be/x'']"
    by (simp add: upper_url_dict_def py_or_def py_Nil_iff Let_def)
      (simp add: startswith_def watch_url_def py_def)
  ultimately show ?thesis
    by (intro conjI)
qed

text \<open>
  Claim C5, amended. The client normalises the identifier of a video (the first
  non-empty value among \<open>video_id\<close>, \<open>id\<close> and \<open>url\<close>) before playing it. An identifier
  that begins with \<open>http\<close>, and so every full URL that begins with \<open>http://\<close> or
  \<open>https://\<close> in small letters, is played unchanged. Every other non-empty identifier,
  and so every bare identifier that does not begin with \<open>http\<close>, is played as
  \<open>https://www.youtube.com/watch?v=\<close> followed by the identifier. The canonical URL
  begins with \<open>http\<close>, so normalising it again changes nothing. The backend does not
  normalise: the \<open>url\<close> of every video it returns is the watch prefix followed by the
  \<open>video_id\<close>, which is what the client plays for a \<open>video_id\<close> that does not begin
  with \<open>http\<close>.
\<close>

theorem identifier_normalization:
  assumes "py_or (py_or (d_video_id v) (d_id v)) (d_url v) = Some ident" and "ident \<noteq> []"
  shows "(startswith ident (py ''http'') \<longrightarrow>
            [u. Video u \<leftarrow> display_youtube_list [v]] = [ident]) \<and>
         (startswith ident (py ''http://'') \<or> startswith ident (py ''https://'') \<longrightarrow>
            [u. Video u \<leftarrow> display_youtube_list [v]] = [ident]) \<and>
         (\<not> startswith ident (py ''http'') \<longrightarrow>
            [u. Video u \<leftarrow> display_youtube_list [v]] =
              [py ''https://www.youtube.com/watch?v='' @ ident]) \<and>
         (bare_identifier ident \<and> \<not> startswith ident (py ''http'') \<longrightarrow>
            [u. Video u \<leftarrow> display_youtube_list [v]] =
              [py ''https://www.youtube.com/watch?v='' @ ident]) \<and>
         [u. Video u \<leftarrow> display_youtube_list [v\<lparr>d_video_id := Some (watch_url ident)\<rparr>]] =
           [watch_url ident] \<and>
         (\<forall>b\<in>set (fst (youtube_search env query n)).
            url b = py ''https://www.youtube.com/watch?v='' @ video_id b \<and>
            (video_id b \<noteq> [] \<and> \<not> startswith (video_id b) (py ''http'') \<longrightarrow>
               [u. Video u \<leftarrow> display_youtube_list [video_json b]] = [url b]))"
proof -
  have verbatim: "[u. Video u \<leftarrow> display_youtube_list [v]] = [ident]"
    if "startswith ident (py ''http'')"
    using that by (simp add: display_one [OF assms] del: display_youtube_list.simps)
  have expanded: "[u. Video u \<leftarrow> display_youtube_list [v]] =
      [py ''https://www.youtube.com/watch?v='' @ ident]"
    if "\<not> startswith ident (py ''http'')"
    using that by (simp add: display_one [OF assms] watch_url_def del: display_youtube_list.simps)
  have prefix: "s = p @ drop (length p) s" if "startswith s p" for s p :: pystr
    using that append_take_drop_id [of "length p" s] by (simp add: startswith_def)
  have small: "startswith ident (py ''http'')"
    if "startswith ident (py ''http://'') \<or> startswith ident (py ''https://'')"
    using that
  proof
    assume "startswith ident (py ''http://'')"
    from prefix [OF this] startswith_scheme(1) [of "drop (length (py ''http://'')) ident"]
    show ?thesis by simp
  next
    assume "startswith ident (py ''https://'')"
    from prefix [OF this] startswith_scheme(2) [of "drop (length (py ''https://'')) ident"]
    show ?thesis by simp
  qed
  have fixed: "[u. Video u \<leftarrow> display_youtube_list [v\<lparr>d_video_id := Some (watch_url ident)\<rparr>]] =
      [watch_url ident]"
  proof -
    have ne: "watch_url ident \<noteq> []"
      by (simp add: watch_url_def py_def)
    then have "py_or (py_or (d_video_id (v\<lparr>d_video_id := Some (watch_url ident)\<rparr>))
        (d_id (v\<lparr>d_video_id := Some (watch_url ident)\<rparr>)))
        (d_url (v\<lparr>d_video_id := Some (watch_url ident)\<rparr>)) = Some (watch_url ident)"
      by (simp add: py_or_def)
    from display_one [OF this ne] show ?thesis
      by (simp add: startswith_watch_url del: display_youtube_list.simps)
  qed
  have backend: "url b = py ''https://www.youtube.com/watch?v='' @ video_id b \<and>
      (video_id b \<noteq> [] \<and> \<not> startswith (video_id b) (py ''http'') \<longrightarrow>
         [u. Video u \<leftarrow> display_youtube_list [video_json b]] = [url b])"
    if b: "b \<in> set (fst (youtube_search env query n))" for b
  proof (intro conjI impI)
    show built: "url b = py ''https://www.youtube.com/watch?v='' @ video_id b"
      using youtube_search_url [OF b] by (simp add: watch_url_def)
    assume bare: "video_id b \<noteq> [] \<and> \<not> startswith (video_id b) (py ''http'')"
    then have "py_or (py_or (d_video_id (video_json b)) (d_id (video_json b)))
        (d_url (video_json b)) = Some (video_id b)"
      by (simp add: py_or_def video_json_def)
    from display_one [OF this] bare youtube_search_url [OF b]
    show "[u. Video u \<leftarrow> display_youtube_list [video_json b]] = [url b]"
      by (simp del: display_youtube_list.simps)
  qed
  from verbatim expanded small fixed backend show ?thesis
    by blast
qed


theorem identifier_normalization_witness:
  "py_or (py_or (d_video_id sample_dict) (d_id sample_dict)) (d_url sample_dict) =
     Some (py ''dQw4w9WgXcQ'') \<and>
   bare_identifier (py ''dQw4w9WgXcQ'') \<and>
   \<not> startswith (py ''dQw4w9WgXcQ'') (py ''http'') \<and>
   [u. Video u \<leftarrow> display_youtube_list [sample_dict]] =
     [py ''https://www.youtube.com/watch?v=dQw4w9WgXcQ''] \<and>
   py_or (py_or (d_video_id sample_url_dict) (d_id sample_url_dict)) (d_url sample_url_dict) =
     Some (py ''https://youtu.be/dQw4w9WgXcQ'') \<and>
   startswith (py ''https://youtu.be/dQw4w9WgXcQ'') (py ''https://'') \<and>
   [u. Video u \<leftarrow> display_youtube_list [sample_url_dict]] = [py ''https://youtu.be/dQw4w9WgXcQ'']"
proof -
  have bare: "py_or (py_or (d_video_id sample_dict) (d_id sample_dict)) (d_url sample_dict) =
      Some (py ''dQw4w9WgXcQ'')" "py ''dQw4w9WgXcQ'' \<noteq> []"
    by (simp_all add: sample_dict_def py_or_def py_Nil_iff)
  have full: "py_or (py_or (d_video_id sample_url_dict) (d_id sample_url_dict))
      (d_url sample_url_dict) = Some (py ''https://youtu.be/dQw4w9WgXcQ'')"
      "py ''https://youtu.be/dQw4w9WgXcQ'' \<noteq> []"
    by (simp_all add: sample_url_dict_def py_or_def py_Nil_iff)
  have is_id: "bare_identifier (py ''dQw4w9WgXcQ'')"
    by (simp add: bare_identifier_def id_char_def py_def)
  have no: "\<not> startswith (py ''dQw4w9WgXcQ'') (py ''http'')"
    by (simp add: startswith_def py_def)
  have yes: "startswith (py ''https://youtu.be/dQw4w9WgXcQ'') (py ''https://'')"
    by (simp add: startswith_def py_def)
  have joined: "py ''https://www.youtube.com/watch?v='' @ py ''dQw4w9WgXcQ'' =
      py ''https://www.youtube.com/watch?v=dQw4w9WgXcQ''"
    by (simp add: py_def)
  from identifier_normalization [OF bare, of sample_env "[]" 3] is_id no
  have "[u. Video u \<leftarrow> display_youtube_list [sample_dict]] =
      [py ''https://www.youtube.com/watch?v='' @ py ''dQw4w9WgXcQ'']"
    by blast
  then have expanded: "[u. Video u \<leftarrow> display_youtube_list [sample_dict]] =
      [py ''https://www.youtube.com/watch?v=dQw4w9WgXcQ'']"
    by (simp only: joined)
  from identifier_normalization [OF full, of sample_env "[]" 3] yes
  have unchanged: "[u. Video u \<leftarrow> display_youtube_list [sample_url_dict]] =
      [py ''https://youtu.be/dQw4w9WgXcQ'']"
    by blast
  from bare(1) is_id no expanded full(1) yes unchanged show ?thesis
    by (intro conjI)
qed




lemma one_line_source:
  "splitlines (py ''x = 1'') = [py ''x = 1'']" "strip (py ''x = 1'') \<noteq> []"
  "take 50 (py ''x = 1'') = py ''x = 1''"
  "py ''Explained '' @ str_int 1 @ py '' lines.'' = py ''Explained 1 lines.''"
  by (simp_all add: splitlines_def py_def is_linebreak_def CR_def LF_def strip_def is_space_def
      str_int_def digits.simps)

lemma explain_ignores_budget:
  "options req = Some opts \<Longrightarrow>
   explain env (req\<lparr>options := Some (opts\<lparr>max_tokens := m\<rparr>)\<rparr>) = explain env req"
  by (simp add: explain_def explain_try_def Let_def)

lemma explain_ignores_language: "explain env (req\<lparr>language := l\<rparr>) = explain env req"
  by (simp add: explain_def explain_try_def Let_def cong: if_cong option.case_cong)

text \<open>
  A body that asks for a budget of 5 tokens: the request model holds 5, and the request
  is answered with a response.
\<close>

theorem token_budget_counterexample:
  "map_option max_tokens (options (ExplainRequest_model sample_body)) = Some (Some 5) \<and>
   (5 :: int) < 256 \<and>
   post_explain sample_env sample_body =
     (Inr \<lparr>summary = py ''Explained 1 lines.'', lines = [explain_entry 1 (py ''x = 1'')],
           related_videos = []\<rparr>, [])"
proof -
  have opts: "options (ExplainRequest_model sample_body) =
      Some \<lparr>safe_run = Some False, include_youtube = Some False, max_tokens = Some 5\<rparr>"
    by (simp add: ExplainRequest_model_def sample_body_def Options_model_def)
  have off: "include_youtube \<lparr>safe_run = Some False, include_youtube = Some False,
      max_tokens = Some 5\<rparr> \<noteq> Some True"
    by simp
  have "code (ExplainRequest_model sample_body) = py ''x = 1''"
    by (simp add: ExplainRequest_model_def sample_body_def)
  with explain_video_off [OF opts off, of sample_env] opts show ?thesis
    by (simp add: post_explain_def one_line_source)
qed

text \<open>
  Claim C7, amended. The request model keeps \<open>max_tokens\<close> exactly as it was sent, and
  takes 1024 when the member is absent: a value outside 256 to 4096 is neither clamped
  nor rejected. The outcome of /explain and its calls do not depend on the value; no
  provider receives it.
\<close>

theorem token_budget_kept_as_sent:
  "(j_max_tokens oj = Given v \<longrightarrow> max_tokens (Options_model oj) = Some v) \<and>
   (j_max_tokens oj = Absent \<longrightarrow> max_tokens (Options_model oj) = Some 1024) \<and>
   (j_options body = Given oj \<and> j_max_tokens oj = Given v \<longrightarrow>
      map_option max_tokens (options (ExplainRequest_model body)) = Some (Some v)) \<and>
   (j_options body = Absent \<longrightarrow>
      map_option max_tokens (options (ExplainRequest_model body)) = Some (Some 1024)) \<and>
   (options req = Some opts \<longrightarrow>
      explain env (req\<lparr>options := Some (opts\<lparr>max_tokens := m\<rparr>)\<rparr>) = explain env req)"
  by (simp add: Options_model_def ExplainRequest_model_def Options_default_def
      explain_ignores_budget)

theorem token_budget_kept_as_sent_witness:
  "j_options sample_body =
     Given \<lparr>j_safe_run = Absent, j_include_youtube = Given False, j_max_tokens = Given 5\<rparr> \<and>
   map_option max_tokens (options (ExplainRequest_model sample_body)) = Some (Some 5) \<and>
   j_options cobol_body = Absent \<and>
   map_option max_tokens (options (ExplainRequest_model cobol_body)) = Some (Some 1024) \<and>
   options (request_of sample_source) = Some Options_default \<and>
   explain sample_env
     (request_of sample_source\<lparr>options := Some (Options_default\<lparr>max_tokens := Some 99999\<rparr>)\<rparr>) =
   explain sample_env (request_of sample_source)"
  using
    token_budget_kept_as_sent [of "\<lparr>j_safe_run = Absent, j_include_youtube = Given False,
      j_max_tokens = Given 5\<rparr>" 5 sample_body "request_of sample_source" Options_default
      sample_env "Some 99999"]
    token_budget_kept_as_sent [of "\<lparr>j_safe_run = Absent, j_include_youtube = Given False,
      j_max_tokens = Given 5\<rparr>" 5 cobol_body "request_of sample_source" Options_default
      sample_env "Some 99999"]
  by (simp add: sample_body_def cobol_body_def request_of_def)

text \<open>
  A body that declares the language \<open>cobol\<close>, sent to a backend whose video provider is
  configured: the request is answered with a response, and the provider has been called.
\<close>

theorem unsupported_language_counterexample:
  "py ''cobol'' \<notin> set supported_languages \<and>
   post_explain sample_env cobol_body =
     (Inr \<lparr>summary = py ''Explained 1 lines.'', lines = [explain_entry 1 (py ''x = 1'')],
           related_videos =
             [\<lparr>title = py ''Intro'', video_id = py ''dQw4w9WgXcQ'',
               url = py ''https://www.youtube.com/watch?v=dQw4w9WgXcQ''\<rparr>]\<rparr>,
      [Youtube_search (py ''x = 1'') 3, Youtube_api (py ''key'') (py ''x = 1'') 3])"
proof -
  have outside: "py ''cobol'' \<notin> set supported_languages"
    by (simp add: supported_languages_def py_def)
  have "options (ExplainRequest_model cobol_body) = Some Options_default"
    "include_youtube Options_default = Some True"
    "splitlines (code (ExplainRequest_model cobol_body)) = py ''x = 1'' # []"
    by (simp_all add: ExplainRequest_model_def cobol_body_def Options_default_def one_line_source)
  moreover have "code (ExplainRequest_model cobol_body) = py ''x = 1''"
    by (simp add: ExplainRequest_model_def cobol_body_def)
  ultimately have "post_explain sample_env cobol_body =
     (Inr \<lparr>summary = py ''Explained 1 lines.'', lines = [explain_entry 1 (py ''x = 1'')],
           related_videos =
             [\<lparr>title = py ''Intro'', video_id = py ''dQw4w9WgXcQ'',
               url = py ''https://www.youtube.com/watch?v=dQw4w9WgXcQ''\<rparr>]\<rparr>,
      [Youtube_search (py ''x = 1'') 3, Youtube_api (py ''key'') (py ''x = 1'') 3])"
    using explain_video_on [of "ExplainRequest_model cobol_body" Options_default "py ''x = 1''" "[]"
        sample_env]
    by (simp add: post_explain_def one_line_source youtube_search_def sample_env_def
        youtube_try_def sample_client_def py_Nil_iff sample_texts)
  with outside show ?thesis
    by simp
qed

text \<open>
  Claim C8, amended. The backend takes any string as language: the request model keeps
  it as sent, and the outcome of /explain and its calls are the same whatever the
  language, so no request fails with \<open>UnsupportedLanguage\<close>. The six supported
  languages are a restriction of the client alone: every request it posts declares one
  of them.
\<close>

theorem language_not_validated:
  "language (ExplainRequest_model body) = j_language body \<and>
   post_explain env (body\<lparr>j_language := l\<rparr>) = post_explain env body \<and>
   (\<forall>endpoint b. Post endpoint b \<in> set (actions f) \<longrightarrow> j_language b \<in> set supported_languages)"
proof (intro conjI allI impI)
  show "language (ExplainRequest_model body) = j_language body"
    by (simp add: ExplainRequest_model_def)
  have "ExplainRequest_model (body\<lparr>j_language := l\<rparr>) = (ExplainRequest_model body)\<lparr>language := l\<rparr>"
    by (simp add: ExplainRequest_model_def)
  then show "post_explain env (body\<lparr>j_language := l\<rparr>) = post_explain env body"
    by (simp add: post_explain_def explain_ignores_language)
next
  fix endpoint b
  assume "Post endpoint b \<in> set (actions f)"
  then have "b = payload f"
    by (auto simp: actions_def split: if_splits)
  then show "j_language b \<in> set supported_languages"
    by (cases "lang f") (simp_all add: payload_def supported_languages_def)
qed

theorem language_not_validated_witness:
  "post_explain sample_env (cobol_body\<lparr>j_language := py ''python''\<rparr>) =
     post_explain sample_env cobol_body \<and>
   language (ExplainRequest_model cobol_body) = py ''cobol'' \<and>
   Post (py ''/explain'') (payload sample_form) \<in> set (actions sample_form) \<and>
   j_language (payload sample_form) = py ''python'' \<and>
   py ''python'' \<in> set supported_languages"
proof -
  have "strip (code_area sample_form) \<noteq> []" "code_area sample_form \<noteq> []"
    by (simp_all add: sample_form_def one_line_source py_Nil_iff)
  then have posted: "Post (py ''/explain'') (payload sample_form) \<in> set (actions sample_form)"
    by (simp add: actions_def) (simp add: sample_form_def)
  have declared: "j_language (payload sample_form) = py ''python''"
    by (simp add: payload_def sample_form_def)
  note inst = language_not_validated [of cobol_body sample_env "py ''python''" sample_form]
  from inst posted have "j_language (payload sample_form) \<in> set supported_languages"
    by blast
  then have supported: "py ''python'' \<in> set supported_languages"
    by (simp only: declared)
  from inst have same: "post_explain sample_env (cobol_body\<lparr>j_language := py ''python''\<rparr>) =
      post_explain sample_env cobol_body"
    and kept: "language (ExplainRequest_model cobol_body) = j_language cobol_body"
    by simp_all
  have "j_language cobol_body = py ''cobol''"
    by (simp add: cobol_body_def)
  with same kept posted declared supported show ?thesis
    by simp
qed


end
